theory Spec2Isabelle
  imports Complex_Main "HOL-Library.Word"
begin

section \<open>mkfat32: synthesis of a FAT32 volume image\<close>

text \<open>
  A shallow embedding of \<^verbatim>\<open>src/tools/mkfat32.py\<close>. Python integers are unbounded and are
  modelled as \<open>int\<close>; \<open>//\<close> is \<open>div\<close> (both round towards minus infinity). A byte is an
  \<open>8 word\<close>, a \<^verbatim>\<open>bytes\<close> or \<^verbatim>\<open>bytearray\<close> value is a list of bytes. Every exception the
  code can raise is a value of \<open>error\<close>.
\<close>

subsection \<open>Bytes, errors and \<^verbatim>\<open>struct.pack_into\<close>\<close>

type_synonym byte = "8 word"

datatype error = StructError | ValueError | OSError

text \<open>Little-endian encoding of an unsigned integer in \<open>n\<close> bytes, lowest byte first.\<close>

fun le_bytes :: "nat \<Rightarrow> int \<Rightarrow> byte list" where
  "le_bytes 0 v = []"
| "le_bytes (Suc n) v = word_of_int v # le_bytes n (v div 256)"

text \<open>Reading a little-endian field back as an unsigned integer.\<close>

fun le_decode :: "byte list \<Rightarrow> int" where
  "le_decode [] = 0"
| "le_decode (b # bs) = uint b + 256 * le_decode bs"

text \<open>A byte string literal such as \<^verbatim>\<open>b'FAT32   '\<close>.\<close>

definition bytes_of :: "string \<Rightarrow> byte list" where
  "bytes_of s = map of_char s"

text \<open>\<^verbatim>\<open>b'\x00' * n\<close>: a non-positive count gives the empty byte string.\<close>

definition zeros :: "int \<Rightarrow> byte list" where
  "zeros n = replicate (nat n) 0"

text \<open>\<^verbatim>\<open>bytearray(n)\<close>: \<open>n\<close> zero bytes; a negative count raises \<^verbatim>\<open>ValueError\<close>.\<close>

definition bytearray :: "int \<Rightarrow> error + byte list" where
  "bytearray n = (if n < 0 then Inl ValueError else Inr (replicate (nat n) 0))"

text \<open>Replacing the bytes of a buffer from an offset on, the buffer keeping its length.\<close>

definition overwrite :: "byte list \<Rightarrow> nat \<Rightarrow> byte list \<Rightarrow> byte list" where
  "overwrite buf off bs = take off buf @ bs @ drop (off + length bs) buf"

text \<open>
  One \<^verbatim>\<open>struct.pack_into(fmt, buffer, offset, ...)\<close> statement. \<open>U w off vs\<close> stands for
  the unsigned little-endian formats: \<^verbatim>\<open><B\<close> is width 1, \<^verbatim>\<open><H\<close> width 2, \<^verbatim>\<open><I\<close> width 4,
  and \<^verbatim>\<open><3B\<close> is width 1 with three values. \<open>S n off bs\<close> stands for \<^verbatim>\<open><ns\<close>: the byte
  string cut or zero-padded to \<open>n\<close> bytes. A value outside the range of its format and a
  buffer too short for the field both raise \<^verbatim>\<open>struct.error\<close>.
\<close>

datatype pack = U nat nat "int list" | S nat nat "byte list"

fun pack_into :: "byte list \<Rightarrow> pack \<Rightarrow> error + byte list" where
  "pack_into buf (U w off vs) =
     (if list_ex (\<lambda>v. v < 0 \<or> 2 ^ (8 * w) \<le> v) vs then Inl StructError
      else if length buf < off + w * length vs then Inl StructError
      else Inr (overwrite buf off (concat (map (le_bytes w) vs))))"
| "pack_into buf (S n off bs) =
     (if length buf < off + n then Inl StructError
      else Inr (overwrite buf off (take n (bs @ replicate n 0))))"

text \<open>A sequence of \<^verbatim>\<open>pack_into\<close> statements on one buffer; the first exception ends it.\<close>

fun pack_all :: "byte list \<Rightarrow> pack list \<Rightarrow> error + byte list" where
  "pack_all buf [] = Inr buf"
| "pack_all buf (p # ps) =
     (case pack_into buf p of Inl e \<Rightarrow> Inl e | Inr buf' \<Rightarrow> pack_all buf' ps)"

subsection \<open>Files\<close>

text \<open>
  The file system maps a path to the content of the file there; \<open>openable\<close> says whether
  \<^verbatim>\<open>open(path, 'wb')\<close> succeeds on a path. An open file is its content and the position
  of the next write. Writing beyond the end fills the gap with zero bytes, which is how a
  hole of a sparse file reads. Failures of \<^verbatim>\<open>write\<close> itself (a full disk) are not modelled.
\<close>

record world =
  files :: "string \<rightharpoonup> byte list"
  openable :: "string \<Rightarrow> bool"

record handle =
  content :: "byte list"
  pos :: nat

definition open_wb :: "world \<Rightarrow> string \<Rightarrow> error + world \<times> handle" where
  "open_wb w name =
     (if openable w name
      then Inr (w\<lparr>files := (files w)(name \<mapsto> [])\<rparr>, \<lparr>content = [], pos = 0\<rparr>)
      else Inl OSError)"

definition fwrite :: "handle \<Rightarrow> byte list \<Rightarrow> handle" where
  "fwrite f bs =
     \<lparr>content = overwrite (content f @ replicate (pos f - length (content f)) 0) (pos f) bs,
      pos = pos f + length bs\<rparr>"

definition fseek :: "handle \<Rightarrow> int \<Rightarrow> error + handle" where
  "fseek f p = (if p < 0 then Inl OSError else Inr (f\<lparr>pos := nat p\<rparr>))"

definition fclose :: "world \<Rightarrow> string \<Rightarrow> handle \<Rightarrow> world" where
  "fclose w name f = w\<lparr>files := (files w)(name \<mapsto> content f)\<rparr>"

subsection \<open>Volume geometry (lines 6 to 19, 90 and 91)\<close>

definition sector_size :: int where "sector_size = 512"
definition reserved_sectors :: int where "reserved_sectors = 32"
definition sectors_per_cluster :: int where "sectors_per_cluster = 1"
definition num_fats :: int where "num_fats = 2"
definition root_cluster :: int where "root_cluster = 2"

definition total_sectors :: "int \<Rightarrow> int" where
  "total_sectors size_mb = (size_mb * 1024 * 1024) div sector_size"

definition total_clusters :: "int \<Rightarrow> int" where
  "total_clusters size_mb = total_sectors size_mb div sectors_per_cluster"

definition fat_size_sectors :: "int \<Rightarrow> int" where
  "fat_size_sectors size_mb = (total_clusters size_mb * 4 + 511) div 512"

definition used_sectors :: "int \<Rightarrow> int" where
  "used_sectors size_mb = reserved_sectors + (num_fats * fat_size_sectors size_mb)"

definition remaining_sectors :: "int \<Rightarrow> int" where
  "remaining_sectors size_mb = total_sectors size_mb - used_sectors size_mb"

subsection \<open>The boot sector (lines 26 to 64)\<close>

definition boot_sector :: "int \<Rightarrow> error + byte list" where
  "boot_sector size_mb =
     pack_all (replicate 512 0)
       [U 1 0 [0xEB, 0x3C, 0x90],
        S 8 3 (bytes_of ''MKFAT32 ''),
        U 2 11 [sector_size],
        U 1 13 [sectors_per_cluster],
        U 2 14 [reserved_sectors],
        U 1 16 [num_fats],
        U 2 17 [0],
        U 2 19 [0],
        U 1 21 [0xF8],
        U 2 22 [0],
        U 2 24 [32],
        U 2 26 [64],
        U 4 28 [0],
        U 4 32 [total_sectors size_mb],
        U 4 36 [fat_size_sectors size_mb],
        U 2 40 [0],
        U 2 42 [0],
        U 4 44 [root_cluster],
        U 2 48 [1],
        U 2 50 [6],
        U 1 64 [0x80],
        U 1 66 [0x29],
        U 4 67 [0x12345678],
        S 11 71 (bytes_of ''ICEOS DISK ''),
        S 8 82 (bytes_of ''FAT32   ''),
        U 2 510 [0xAA55]]"

subsection \<open>The file allocation table (lines 78 to 81)\<close>

definition fat_table :: "int \<Rightarrow> error + byte list" where
  "fat_table size_mb =
     (case bytearray (sector_size * fat_size_sectors size_mb) of
        Inl e \<Rightarrow> Inl e
      | Inr fat_data \<Rightarrow>
          pack_all fat_data [U 4 0 [0x0FFFFFF8], U 4 4 [0x0FFFFFFF], U 4 8 [0x0FFFFFFF]])"

subsection \<open>Writing the image (lines 67 to 102)\<close>

text \<open>
  The writes up to the root directory cluster. The result is the file as it stands and
  the exception raised, if any: the \<^verbatim>\<open>with\<close> statement closes the file on both paths.
\<close>

definition write_regions :: "byte list \<Rightarrow> int \<Rightarrow> handle \<Rightarrow> handle \<times> error option" where
  "write_regions bpb size_mb f0 =
     (let f1 = fwrite f0 bpb;
          f2 = fwrite f1 (zeros (sector_size * (reserved_sectors - 1)))
      in case fat_table size_mb of
           Inl e \<Rightarrow> (f2, Some e)
         | Inr fat_data \<Rightarrow>
             (let f3 = fwrite f2 fat_data;
                  f4 = fwrite f3 fat_data;
                  f5 = fwrite f4 (zeros (sector_size * sectors_per_cluster))
              in (f5, None)))"

text \<open>The seek to the last byte of the volume and the write of one zero byte there.\<close>

definition extend_to_end :: "int \<Rightarrow> handle \<Rightarrow> handle \<times> error option" where
  "extend_to_end size_mb f =
     (case fseek f ((total_sectors size_mb * sector_size) - 1) of
        Inl e \<Rightarrow> (f, Some e)
      | Inr f' \<Rightarrow> (fwrite f' [0], None))"

definition create_fat32_image :: "world \<Rightarrow> string \<Rightarrow> int \<Rightarrow> world \<times> error option" where
  "create_fat32_image w filename size_mb =
     (case boot_sector size_mb of
        Inl e \<Rightarrow> (w, Some e)
      | Inr bpb \<Rightarrow>
          (case open_wb w filename of
             Inl e \<Rightarrow> (w, Some e)
           | Inr (w1, f0) \<Rightarrow>
               (case write_regions bpb size_mb f0 of
                  (f5, Some e) \<Rightarrow> (fclose w1 filename f5, Some e)
                | (f5, None) \<Rightarrow>
                    (case extend_to_end size_mb f5 of
                       (f6, r) \<Rightarrow> (fclose w1 filename f6, r)))))"

subsection \<open>The command line (lines 104 to 108)\<close>

text \<open>
  \<open>main\<close> takes \<^verbatim>\<open>sys.argv\<close> and gives the file system afterwards, the lines printed and
  the exit status. An exception that nothing catches ends the interpreter with status 1.
  The call at line 108 passes the file name only, so \<open>size_mb\<close> takes the default value
  of the parameter declared at line 5.
\<close>

definition default_size_mb :: int where
  "default_size_mb = 32"

definition main :: "world \<Rightarrow> string list \<Rightarrow> world \<times> string list \<times> int" where
  "main w argv =
     (if length argv < 2 then (w, [''Usage: mkfat32.py <output_file>''], 1)
      else (case create_fat32_image w (argv ! 1) default_size_mb of
              (w', None) \<Rightarrow> (w', [], 0)
            | (w', Some e) \<Rightarrow> (w', [], 1)))"


subsection \<open>Reading the result\<close>

text \<open>The bytes of the file at \<open>filename\<close> once \<open>create_fat32_image\<close> has returned normally.\<close>

definition output_of :: "world \<Rightarrow> string \<Rightarrow> int \<Rightarrow> byte list option" where
  "output_of w filename size_mb =
     (case create_fat32_image w filename size_mb of
        (w', None) \<Rightarrow> files w' filename
      | (w', Some e) \<Rightarrow> None)"

text \<open>The \<open>n\<close> bytes of a byte stream that start at offset \<open>off\<close>.\<close>

definition region :: "byte list \<Rightarrow> int \<Rightarrow> int \<Rightarrow> byte list" where
  "region out off n = take (nat n) (drop (nat off) out)"

text \<open>
  FAT copy \<open>k\<close> (0 or 1) of an image: \<open>fat_size_sectors\<close> sectors, the first copy right
  after the reserved sectors. Entry \<open>j\<close> of a table is its \<open>j\<close>-th little-endian 32-bit
  value.
\<close>

definition fat_copy :: "int \<Rightarrow> int \<Rightarrow> byte list \<Rightarrow> byte list" where
  "fat_copy size_mb k out =
     region out ((reserved_sectors + k * fat_size_sectors size_mb) * sector_size)
       (fat_size_sectors size_mb * sector_size)"

definition fat_entry :: "byte list \<Rightarrow> nat \<Rightarrow> int" where
  "fat_entry fat j = le_decode (take 4 (drop (4 * j) fat))"

text \<open>The root directory cluster of an image: the cluster right after the two FAT copies.\<close>

definition root_dir_cluster :: "int \<Rightarrow> byte list \<Rightarrow> byte list" where
  "root_dir_cluster size_mb out =
     region out ((reserved_sectors + 2 * fat_size_sectors size_mb) * 512)
       (sector_size * sectors_per_cluster)"

text \<open>A file system with no file, where every path can be opened for writing.\<close>

definition fresh_world :: world where
  "fresh_world = \<lparr>files = Map.empty, openable = (\<lambda>name. True)\<rparr>"

text \<open>The same with a file of three bytes at \<^verbatim>\<open>disk.img\<close> already.\<close>

definition used_world :: world where
  "used_world = fresh_world\<lparr>files := [''disk.img'' \<mapsto> [1, 2, 3]]\<rparr>"

subsection \<open>The boot sector as the table of section 6 of the specification gives it\<close>

text \<open>
  Each row of the table is an offset, a length and a value: a number, written
  little-endian, or a byte string. Byte \<open>i\<close> of the boot sector is the byte of the row
  that covers \<open>i\<close>, and zero where no row does.
\<close>

datatype field_value = Num int | Raw "byte list"

definition section6_table :: "int \<Rightarrow> (nat \<times> nat \<times> field_value) list" where
  "section6_table size_mb =
     [(0, 3, Raw [0xEB, 0x3C, 0x90]),
      (3, 8, Raw (bytes_of ''MKFAT32 '')),
      (11, 2, Num 512),
      (13, 1, Num 1),
      (14, 2, Num 32),
      (16, 1, Num 2),
      (17, 2, Num 0),
      (19, 2, Num 0),
      (21, 1, Num 0xF8),
      (22, 2, Num 0),
      (24, 2, Num 32),
      (26, 2, Num 64),
      (28, 4, Num 0),
      (32, 4, Num (total_sectors size_mb)),
      (36, 4, Num (fat_size_sectors size_mb)),
      (40, 2, Num 0),
      (42, 2, Num 0),
      (44, 4, Num 2),
      (48, 2, Num 1),
      (50, 2, Num 6),
      (64, 1, Num 0x80),
      (66, 1, Num 0x29),
      (67, 4, Num 0x12345678),
      (71, 11, Raw (bytes_of ''ICEOS DISK '')),
      (82, 8, Raw (bytes_of ''FAT32   '')),
      (510, 2, Num 0xAA55)]"

fun field_bytes :: "nat \<Rightarrow> field_value \<Rightarrow> byte list" where
  "field_bytes n (Num v) = le_bytes n v"
| "field_bytes n (Raw bs) = bs"

fun table_byte :: "(nat \<times> nat \<times> field_value) list \<Rightarrow> nat \<Rightarrow> byte" where
  "table_byte [] i = 0"
| "table_byte ((off, n, v) # t) i =
     (if off \<le> i \<and> i < off + n then field_bytes n v ! (i - off) else table_byte t i)"

definition spec_boot_sector :: "int \<Rightarrow> byte list" where
  "spec_boot_sector size_mb = map (table_byte (section6_table size_mb)) [0..<512]"

subsection \<open>Auxiliary definitions for the proofs\<close>

text \<open>What one \<open>pack\<close> writes, where, and whether its values are in the range of its format.\<close>

fun pack_off :: "pack \<Rightarrow> nat" where
  "pack_off (U w off vs) = off"
| "pack_off (S n off bs) = off"

fun pack_bytes :: "pack \<Rightarrow> byte list" where
  "pack_bytes (U w off vs) = concat (map (le_bytes w) vs)"
| "pack_bytes (S n off bs) = take n (bs @ replicate n 0)"

fun pack_ok :: "pack \<Rightarrow> bool" where
  "pack_ok (U w off vs) = (\<not> list_ex (\<lambda>v. v < 0 \<or> 2 ^ (8 * w) \<le> v) vs)"
| "pack_ok (S n off bs) = True"

text \<open>
  Packs at increasing offsets into a zeroed buffer: \<open>layout\<close> is the written prefix,
  \<open>fits\<close> says that the packs are in range, in order and inside \<open>N\<close> bytes.
\<close>

fun layout :: "byte list \<Rightarrow> pack list \<Rightarrow> byte list" where
  "layout pre [] = pre"
| "layout pre (p # ps) = layout (pre @ replicate (pack_off p - length pre) 0 @ pack_bytes p) ps"

fun fits :: "nat \<Rightarrow> nat \<Rightarrow> pack list \<Rightarrow> bool" where
  "fits l N [] = (l \<le> N)"
| "fits l N (p # ps) =
     (pack_ok p \<and> l \<le> pack_off p \<and> fits (pack_off p + length (pack_bytes p)) N ps)"

text \<open>
  The boot sector, one FAT, the regions written before the seek and the whole image,
  written out.
\<close>

definition boot_bytes :: "int \<Rightarrow> byte list" where
  "boot_bytes size_mb =
     [0xEB, 0x3C, 0x90] @ bytes_of ''MKFAT32 ''
     @ [0, 2, 1, 32, 0, 2, 0, 0, 0, 0, 0xF8, 0, 0, 32, 0, 64, 0, 0, 0, 0, 0]
     @ le_bytes 4 (total_sectors size_mb) @ le_bytes 4 (fat_size_sectors size_mb)
     @ [0, 0, 0, 0, 2, 0, 0, 0, 1, 0, 6, 0] @ replicate 12 0
     @ [0x80, 0, 0x29, 0x78, 0x56, 0x34, 0x12]
     @ bytes_of ''ICEOS DISK '' @ bytes_of ''FAT32   ''
     @ replicate 420 0 @ [0x55, 0xAA]"

definition fat_bytes :: "int \<Rightarrow> byte list" where
  "fat_bytes size_mb =
     [0xF8, 0xFF, 0xFF, 0x0F, 0xFF, 0xFF, 0xFF, 0x0F, 0xFF, 0xFF, 0xFF, 0x0F]
     @ replicate (nat (8192 * size_mb) - 12) 0"

definition regions_bytes :: "byte list \<Rightarrow> int \<Rightarrow> byte list" where
  "regions_bytes bpb size_mb =
     bpb @ replicate 15872 0 @ fat_bytes size_mb @ fat_bytes size_mb @ replicate 512 0"

definition image_bytes :: "int \<Rightarrow> byte list" where
  "image_bytes size_mb =
     boot_bytes size_mb @ replicate 15872 0 @ fat_bytes size_mb @ fat_bytes size_mb
     @ replicate 512 0 @ replicate (nat (size_mb * 1048576) - nat (16384 * size_mb + 16896) - 1) 0
     @ [0]"

section \<open>Properties\<close>

subsection \<open>Geometry\<close>

lemmas geom_defs = sector_size_def reserved_sectors_def sectors_per_cluster_def num_fats_def
  root_cluster_def total_sectors_def total_clusters_def fat_size_sectors_def used_sectors_def
  remaining_sectors_def

lemma total_sectors_eq: "total_sectors n = 2048 * n"
  by (simp add: geom_defs)

lemma fat_size_sectors_eq: "fat_size_sectors n = 16 * n"
  by (simp add: geom_defs)

lemma neg_div_512: "- (- a div 512) = (a + 511) div 512" for a :: int
proof -
  define q r where "q = a div 512" and "r = a mod 512"
  have a: "a = 512 * q + r" and r: "0 \<le> r" "r < 512"
    by (simp_all add: q_def r_def)
  have neg: "- a div 512 = (if r = 0 then - q else - q - 1)"
    unfolding q_def r_def by (rule zdiv_zminus1_eq_if) simp
  show ?thesis
  proof (cases "r = 0")
    case True
    have "(a + 511) div 512 = q"
      by (rule int_div_pos_eq[of _ _ _ 511]) (use a True in simp_all)
    with neg True show ?thesis by simp
  next
    case False
    have "(a + 511) div 512 = q + 1"
      by (rule int_div_pos_eq[of _ _ _ "r - 1"]) (use a r False in simp_all)
    with neg False show ?thesis by simp
  qed
qed

lemma ceil_div_512: "(a + 511) div 512 = \<lceil>real_of_int a / 512\<rceil>" for a :: int
proof -
  have "\<lceil>real_of_int a / real_of_int 512\<rceil> = - (- a div 512)"
    by (rule ceiling_divide_eq_div)
  then show ?thesis by (simp add: neg_div_512)
qed

text \<open>
  Claim C4. The FAT size in sectors is the ceiling of \<open>total_clusters * 4 / 512\<close>, where
  \<open>total_clusters = total_sectors = (size_mb * 1024 * 1024) div 512\<close>; one megabyte gives
  2048 sectors, 2048 clusters and a FAT of 16 sectors.
\<close>

theorem geometry_fat_size_ceiling:
  "total_sectors size_mb = (size_mb * 1024 * 1024) div 512
   \<and> total_clusters size_mb = total_sectors size_mb
   \<and> fat_size_sectors size_mb = \<lceil>real_of_int (total_clusters size_mb * 4) / 512\<rceil>
   \<and> total_sectors 1 = 2048 \<and> total_clusters 1 = 2048 \<and> fat_size_sectors 1 = 16"
proof -
  have "fat_size_sectors size_mb = \<lceil>real_of_int (total_clusters size_mb * 4) / 512\<rceil>"
    unfolding fat_size_sectors_def by (rule ceil_div_512)
  moreover have "total_sectors size_mb = (size_mb * 1024 * 1024) div 512"
    by (simp add: total_sectors_def sector_size_def)
  moreover have "total_clusters size_mb = total_sectors size_mb"
    by (simp add: total_clusters_def sectors_per_cluster_def)
  moreover have "total_sectors 1 = 2048" "total_clusters 1 = 2048" "fat_size_sectors 1 = 16"
    by (simp_all add: geom_defs)
  ultimately show ?thesis by blast
qed


subsection \<open>Encoding and packing\<close>

lemma length_le_bytes [simp]: "length (le_bytes n v) = n"
  by (induction n arbitrary: v) auto

lemma length_bytes_of [simp]: "length (bytes_of s) = length s"
  by (simp add: bytes_of_def)

lemma le_bytes_1: "le_bytes (Suc 0) v = [word_of_int v]"
  by simp

lemma le_bytes_2: "le_bytes 2 v = [word_of_int v, word_of_int (v div 256)]"
  by (simp add: numeral_2_eq_2)

lemma le_bytes_4:
  "le_bytes 4 v = [word_of_int v, word_of_int (v div 256), word_of_int (v div 65536),
                   word_of_int (v div 16777216)]"
proof -
  have n: "(4::nat) = Suc (Suc (Suc (Suc 0)))" by simp
  have "v div 256 div 256 = v div 65536" "v div 256 div 256 div 256 = v div 16777216"
    by (simp_all add: div_mult2_eq[symmetric])
  then show ?thesis unfolding n by simp
qed

lemma length_concat_le_bytes: "length (concat (map (le_bytes w) vs)) = w * length vs"
  by (induction vs) auto

lemma pack_into_eq:
  "pack_into buf p =
     (if pack_ok p \<and> pack_off p + length (pack_bytes p) \<le> length buf
      then Inr (overwrite buf (pack_off p) (pack_bytes p)) else Inl StructError)"
  by (cases p) (auto simp: length_concat_le_bytes)

lemma pack_all_not_ok: "list_ex (\<lambda>p. \<not> pack_ok p) ps \<Longrightarrow> pack_all buf ps = Inl StructError"
  by (induction ps arbitrary: buf) (auto simp: pack_into_eq)

lemma overwrite_zero_tail:
  assumes "length pre \<le> off" and "off + length bs \<le> N"
  shows "overwrite (pre @ replicate (N - length pre) 0) off bs
         = (pre @ replicate (off - length pre) 0 @ bs) @ replicate (N - (off + length bs)) 0"
  using assms by (simp add: overwrite_def)

lemma fits_le: "fits l N ps \<Longrightarrow> l \<le> N"
proof (induction ps arbitrary: l)
  case Nil
  then show ?case by simp
next
  case (Cons p ps)
  then have "pack_off p + length (pack_bytes p) \<le> N" "l \<le> pack_off p" by auto
  then show ?case by linarith
qed

lemma pack_all_layout:
  "fits (length pre) N ps \<Longrightarrow>
   pack_all (pre @ replicate (N - length pre) 0) ps
   = Inr (layout pre ps @ replicate (N - length (layout pre ps)) 0)"
proof (induction ps arbitrary: pre)
  case Nil
  then show ?case by simp
next
  case (Cons p ps)
  let ?pre = "pre @ replicate (pack_off p - length pre) 0 @ pack_bytes p"
  from Cons.prems have ok: "pack_ok p" and le: "length pre \<le> pack_off p"
    and rest: "fits (pack_off p + length (pack_bytes p)) N ps" by auto
  from rest have bound: "pack_off p + length (pack_bytes p) \<le> N" by (rule fits_le)
  have len: "length ?pre = pack_off p + length (pack_bytes p)" using le by simp
  have step: "pack_into (pre @ replicate (N - length pre) 0) p
        = Inr (?pre @ replicate (N - length ?pre) 0)"
    using ok le bound overwrite_zero_tail[OF le bound]
    by (simp add: pack_into_eq)
  from rest have "fits (length ?pre) N ps" by (simp only: len)
  from Cons.IH[OF this] show ?case
    by (simp only: pack_all.simps step sum.case layout.simps)
qed

subsection \<open>The boot sector\<close>

lemma length_boot_bytes: "length (boot_bytes size_mb) = 512"
  by (simp add: boot_bytes_def)

lemma in_range:
  assumes "0 \<le> size_mb" "size_mb < 2097152"
  shows "0 \<le> total_sectors size_mb" "total_sectors size_mb < 4294967296"
        "0 \<le> fat_size_sectors size_mb" "fat_size_sectors size_mb < 4294967296"
  using assms by (simp_all add: total_sectors_eq fat_size_sectors_eq)

lemma boot_sector_ok:
  assumes "0 \<le> size_mb" "size_mb < 2097152"
  shows "boot_sector size_mb = Inr (boot_bytes size_mb)"
proof -
  note r = in_range[OF assms]
  have "boot_sector size_mb
        = pack_all ([] @ replicate (512 - length ([]::byte list)) 0)
       [U 1 0 [0xEB, 0x3C, 0x90],
        S 8 3 (bytes_of ''MKFAT32 ''),
        U 2 11 [sector_size],
        U 1 13 [sectors_per_cluster],
        U 2 14 [reserved_sectors],
        U 1 16 [num_fats],
        U 2 17 [0],
        U 2 19 [0],
        U 1 21 [0xF8],
        U 2 22 [0],
        U 2 24 [32],
        U 2 26 [64],
        U 4 28 [0],
        U 4 32 [total_sectors size_mb],
        U 4 36 [fat_size_sectors size_mb],
        U 2 40 [0],
        U 2 42 [0],
        U 4 44 [root_cluster],
        U 2 48 [1],
        U 2 50 [6],
        U 1 64 [0x80],
        U 1 66 [0x29],
        U 4 67 [0x12345678],
        S 11 71 (bytes_of ''ICEOS DISK ''),
        S 8 82 (bytes_of ''FAT32   ''),
        U 2 510 [0xAA55]]" (is "_ = pack_all _ ?ops")
    by (simp add: boot_sector_def)
  also have "\<dots> = Inr (layout [] ?ops @ replicate (512 - length (layout [] ?ops)) 0)"
    by (rule pack_all_layout)
       (use r in \<open>simp add: sector_size_def sectors_per_cluster_def reserved_sectors_def
          num_fats_def root_cluster_def\<close>)
  also have "layout [] ?ops = boot_bytes size_mb"
    by (simp add: boot_bytes_def le_bytes_1 le_bytes_2 le_bytes_4 sector_size_def
          sectors_per_cluster_def reserved_sectors_def num_fats_def root_cluster_def)
  finally show ?thesis by (simp add: length_boot_bytes)
qed

lemma boot_sector_out_of_range:
  assumes "size_mb < 0 \<or> 2097152 \<le> size_mb"
  shows "boot_sector size_mb = Inl StructError"
proof -
  have "total_sectors size_mb < 0 \<or> 4294967296 \<le> total_sectors size_mb"
    using assms by (auto simp: total_sectors_eq)
  then show ?thesis
    unfolding boot_sector_def by (intro pack_all_not_ok) auto
qed

subsection \<open>The table of section 6\<close>

lemma upt_split: "a \<le> b \<Longrightarrow> b \<le> c \<Longrightarrow> [a..<c] = [a..<b] @ [b..<c]"
  by (metis le_add_diff_inverse upt_add_eq_append)

lemma upt_from_0: "2 \<le> n \<Longrightarrow> [0..<n] = 0 # 1 # [2..<n]"
  by (simp add: upt_rec[of 0] upt_rec[of "Suc 0"] numeral_2_eq_2)

lemma map_upt_const:
  assumes "\<And>i. a \<le> i \<Longrightarrow> i < b \<Longrightarrow> f i = c"
  shows "map f [a..<b] = replicate (b - a) c"
  using assms by (simp add: list_eq_iff_nth_eq)

lemma table_zero_52_64:
  "52 \<le> i \<Longrightarrow> i < 64 \<Longrightarrow> table_byte (section6_table size_mb) i = 0"
  by (simp add: section6_table_def)

lemma table_zero_90_510:
  "90 \<le> i \<Longrightarrow> i < 510 \<Longrightarrow> table_byte (section6_table size_mb) i = 0"
  by (simp add: section6_table_def)

lemma table_0_52:
  "map (table_byte (section6_table size_mb)) [0..<52] =
     [0xEB, 0x3C, 0x90] @ bytes_of ''MKFAT32 ''
     @ [0, 2, 1, 32, 0, 2, 0, 0, 0, 0, 0xF8, 0, 0, 32, 0, 64, 0, 0, 0, 0, 0]
     @ le_bytes 4 (total_sectors size_mb) @ le_bytes 4 (fat_size_sectors size_mb)
     @ [0, 0, 0, 0, 2, 0, 0, 0, 1, 0, 6, 0]"
  by (simp add: upt_from_0 section6_table_def le_bytes_1 le_bytes_2 le_bytes_4 bytes_of_def)

lemma table_64_90:
  "map (table_byte (section6_table size_mb)) [64..<90] =
     [0x80, 0, 0x29, 0x78, 0x56, 0x34, 0x12]
     @ bytes_of ''ICEOS DISK '' @ bytes_of ''FAT32   ''"
  by (simp add: section6_table_def le_bytes_1 le_bytes_2 le_bytes_4 bytes_of_def)

lemma table_510_512:
  "map (table_byte (section6_table size_mb)) [510..<512] = [0x55, 0xAA]"
  by (simp add: section6_table_def le_bytes_1 le_bytes_2 le_bytes_4 bytes_of_def)

lemma spec_boot_sector_eq: "spec_boot_sector size_mb = boot_bytes size_mb"
proof -
  let ?f = "table_byte (section6_table size_mb)"
  have "[0..<512] = [0..<52] @ [52..<512::nat]" "[52..<512] = [52..<64] @ [64..<512::nat]"
    "[64..<512] = [64..<90] @ [90..<512::nat]" "[90..<512] = [90..<510] @ [510..<512::nat]"
    by (rule upt_split; simp)+
  then have "[0..<512] = [0..<52] @ [52..<64] @ [64..<90] @ [90..<510] @ [510..<512::nat]"
    by (simp only:)
  then have "map ?f [0..<512] = map ?f [0..<52] @ map ?f [52..<64] @ map ?f [64..<90]
       @ map ?f [90..<510] @ map ?f [510..<512]"
    by (simp only: map_append)
  moreover have "map ?f [52..<64] = replicate 12 0"
    using map_upt_const[of 52 64 ?f 0] table_zero_52_64 by simp
  moreover have "map ?f [90..<510] = replicate 420 0"
    using map_upt_const[of 90 510 ?f 0] table_zero_90_510 by simp
  ultimately show ?thesis
    unfolding spec_boot_sector_def boot_bytes_def
    by (simp only: table_0_52 table_64_90 table_510_512 append_assoc)
qed


subsection \<open>The image\<close>

lemma length_fat_bytes: "0 < size_mb \<Longrightarrow> length (fat_bytes size_mb) = nat (8192 * size_mb)"
  by (simp add: fat_bytes_def)

lemma fat_table_ok:
  assumes "0 < size_mb"
  shows "fat_table size_mb = Inr (fat_bytes size_mb)"
proof -
  let ?N = "nat (8192 * size_mb)"
  let ?ops = "[U 4 0 [0x0FFFFFF8], U 4 4 [0x0FFFFFFF], U 4 8 [0x0FFFFFFF]]"
  have N: "12 \<le> ?N" using assms by simp
  have size: "sector_size * fat_size_sectors size_mb = 8192 * size_mb"
    by (simp add: sector_size_def fat_size_sectors_eq)
  have "fat_table size_mb = pack_all ([] @ replicate (?N - length ([]::byte list)) 0) ?ops"
    using assms by (simp add: fat_table_def size bytearray_def)
  also have "\<dots> = Inr (layout [] ?ops @ replicate (?N - length (layout [] ?ops)) 0)"
    by (rule pack_all_layout) (use N in simp)
  also have "layout [] ?ops
      = [0xF8, 0xFF, 0xFF, 0x0F, 0xFF, 0xFF, 0xFF, 0x0F, 0xFF, 0xFF, 0xFF, 0x0F]"
    by (simp add: le_bytes_4)
  finally show ?thesis by (simp add: fat_bytes_def)
qed

lemma fat_table_zero: "fat_table 0 = Inl StructError"
  by (simp add: fat_table_def fat_size_sectors_eq bytearray_def)

lemma fwrite_append:
  "pos f = length (content f) \<Longrightarrow>
   fwrite f bs = \<lparr>content = content f @ bs, pos = length (content f) + length bs\<rparr>"
  by (simp add: fwrite_def overwrite_def)

lemma fwrite_beyond:
  "length (content f) \<le> pos f \<Longrightarrow>
   fwrite f bs = \<lparr>content = content f @ replicate (pos f - length (content f)) 0 @ bs,
                  pos = pos f + length bs\<rparr>"
  by (simp add: fwrite_def overwrite_def)

lemma length_regions_bytes:
  "0 < size_mb \<Longrightarrow> length bpb = 512 \<Longrightarrow>
   length (regions_bytes bpb size_mb) = nat (16384 * size_mb + 16896)"
  by (simp add: regions_bytes_def length_fat_bytes)

lemma write_regions_ok:
  assumes "0 < size_mb"
  shows "write_regions bpb size_mb \<lparr>content = [], pos = 0\<rparr>
         = (\<lparr>content = regions_bytes bpb size_mb,
             pos = length (regions_bytes bpb size_mb)\<rparr>, None)"
  by (simp add: write_regions_def fat_table_ok[OF assms] fwrite_append zeros_def Let_def
        regions_bytes_def sector_size_def reserved_sectors_def sectors_per_cluster_def)

lemma extend_to_end_eq:
  "0 < size_mb \<Longrightarrow>
   extend_to_end size_mb f = (fwrite (f\<lparr>pos := nat (size_mb * 1024 * 1024 - 1)\<rparr>) [0], None)"
  by (simp add: extend_to_end_def fseek_def total_sectors_eq sector_size_def)

lemma image_bytes_eq:
  "image_bytes size_mb = regions_bytes (boot_bytes size_mb) size_mb
     @ replicate (nat (size_mb * 1048576) - nat (16384 * size_mb + 16896) - 1) 0 @ [0]"
  by (simp add: image_bytes_def regions_bytes_def)

lemma create_ok:
  assumes "0 < size_mb" "size_mb < 2097152" "openable w filename"
  shows "create_fat32_image w filename size_mb
         = (w\<lparr>files := (files w)(filename \<mapsto> image_bytes size_mb)\<rparr>, None)"
proof -
  let ?r = "regions_bytes (boot_bytes size_mb) size_mb"
  let ?f5 = "\<lparr>content = ?r, pos = length ?r\<rparr>"
  have len: "length ?r = nat (16384 * size_mb + 16896)"
    using assms(1) by (simp add: length_regions_bytes length_boot_bytes)
  have bs: "boot_sector size_mb = Inr (boot_bytes size_mb)"
    using assms by (simp add: boot_sector_ok)
  have "length ?r \<le> nat (size_mb * 1024 * 1024 - 1)"
    using assms(1) by (simp add: len)
  then have ext: "extend_to_end size_mb ?f5
      = (\<lparr>content = image_bytes size_mb, pos = nat (size_mb * 1024 * 1024 - 1) + 1\<rparr>, None)"
    using assms(1)
    by (simp add: extend_to_end_eq fwrite_beyond image_bytes_eq len nat_diff_distrib)
  show ?thesis
    using assms(3)
    by (simp add: create_fat32_image_def bs open_wb_def write_regions_ok[OF assms(1)] ext
          fclose_def)
qed

lemma length_image_bytes:
  assumes "0 < size_mb"
  shows "length (image_bytes size_mb) = nat (size_mb * 1048576)"
  using assms by (simp add: image_bytes_eq length_regions_bytes length_boot_bytes)


lemma output_of_ok:
  assumes "0 < size_mb" "size_mb < 2097152" "openable w filename"
  shows "output_of w filename size_mb = Some (image_bytes size_mb)"
  by (simp add: output_of_def create_ok[OF assms])

lemma create_out_of_range:
  assumes "size_mb < 0 \<or> 2097152 \<le> size_mb"
  shows "create_fat32_image w filename size_mb = (w, Some StructError)"
  by (simp add: create_fat32_image_def boot_sector_out_of_range[OF assms])

lemma last_image_byte:
  assumes "0 < size_mb"
  shows "image_bytes size_mb ! nat (size_mb * 1024 * 1024 - 1) = 0"
proof -
  have "image_bytes size_mb ! (length (image_bytes size_mb) - 1) = 0"
    by (simp add: image_bytes_def nth_append)
  moreover have "length (image_bytes size_mb) - 1 = nat (size_mb * 1024 * 1024 - 1)"
    using assms by (simp add: length_image_bytes nat_diff_distrib)
  ultimately show ?thesis by simp
qed

subsection \<open>Regions of the image\<close>

lemma region_append:
  "nat off = length xs \<Longrightarrow> nat n = length ys \<Longrightarrow> region (xs @ ys @ zs) off n = ys"
  by (simp add: region_def)

lemma region_prefix:
  "nat off + nat n \<le> length xs \<Longrightarrow> region (xs @ ys) off n = region xs off n"
  by (simp add: region_def)

lemma le_decode_le_bytes:
  "0 \<le> v \<Longrightarrow> v < 256 ^ n \<Longrightarrow> le_decode (le_bytes n v) = v"
proof (induction n arbitrary: v)
  case 0
  then show ?case by simp
next
  case (Suc n)
  have "uint (word_of_int v :: byte) = v mod 256"
    by (simp add: uint_word_of_int)
  moreover have "le_decode (le_bytes n (v div 256)) = v div 256"
    using Suc.prems by (intro Suc.IH) (simp_all add: div_less_iff_less_mult pos_imp_zdiv_nonneg_iff mult.commute)
  ultimately show ?case by simp
qed

lemma le_decode_zeros: "le_decode (replicate k 0) = 0"
  by (induction k) simp_all

lemma take_boot_sector: "take 512 (image_bytes size_mb) = boot_bytes size_mb"
  by (simp add: image_bytes_def length_boot_bytes)

lemma fat_copy_0:
  assumes "0 < size_mb"
  shows "fat_copy size_mb 0 (image_bytes size_mb) = fat_bytes size_mb"
proof -
  have "image_bytes size_mb = (boot_bytes size_mb @ replicate 15872 0) @ fat_bytes size_mb
      @ (fat_bytes size_mb @ replicate 512 0
         @ replicate (nat (size_mb * 1048576) - nat (16384 * size_mb + 16896) - 1) 0 @ [0])"
    by (simp add: image_bytes_def)
  then show ?thesis
    unfolding fat_copy_def using assms
    by (simp only:) (rule region_append; simp add: length_boot_bytes length_fat_bytes
        reserved_sectors_def sector_size_def fat_size_sectors_eq)
qed

lemma fat_copy_1:
  assumes "0 < size_mb"
  shows "fat_copy size_mb 1 (image_bytes size_mb) = fat_bytes size_mb"
proof -
  have "image_bytes size_mb = (boot_bytes size_mb @ replicate 15872 0 @ fat_bytes size_mb)
      @ fat_bytes size_mb @ (replicate 512 0
         @ replicate (nat (size_mb * 1048576) - nat (16384 * size_mb + 16896) - 1) 0 @ [0])"
    by (simp add: image_bytes_def)
  then show ?thesis
    unfolding fat_copy_def using assms
    by (simp only:) (rule region_append; simp add: length_boot_bytes length_fat_bytes
        reserved_sectors_def sector_size_def fat_size_sectors_eq nat_add_distrib)
qed

lemma root_dir_cluster_image:
  assumes "0 < size_mb"
  shows "root_dir_cluster size_mb (image_bytes size_mb) = replicate 512 0"
proof -
  have "image_bytes size_mb
      = (boot_bytes size_mb @ replicate 15872 0 @ fat_bytes size_mb @ fat_bytes size_mb)
      @ replicate 512 0
      @ (replicate (nat (size_mb * 1048576) - nat (16384 * size_mb + 16896) - 1) 0 @ [0])"
    by (simp add: image_bytes_def)
  then show ?thesis
    unfolding root_dir_cluster_def using assms
    by (simp only:) (rule region_append; simp add: length_boot_bytes length_fat_bytes
        reserved_sectors_def sector_size_def sectors_per_cluster_def fat_size_sectors_eq
        nat_add_distrib)
qed

lemma fat_entries_reserved:
  "fat_entry (fat_bytes size_mb) 0 = 0x0FFFFFF8"
  "fat_entry (fat_bytes size_mb) 1 = 0x0FFFFFFF"
  "fat_entry (fat_bytes size_mb) 2 = 0x0FFFFFFF"
  by (simp_all add: fat_entry_def fat_bytes_def)

lemma drop_zero_tail:
  "length xs \<le> n \<Longrightarrow> drop n (xs @ replicate m 0) = replicate (m - (n - length xs)) 0"
  by simp

lemma fat_entries_free:
  assumes "3 \<le> j"
  shows "fat_entry (fat_bytes size_mb) j = 0"
proof -
  have "drop (4 * j) (fat_bytes size_mb)
      = replicate (nat (8192 * size_mb) - 12 - (4 * j - 12)) 0"
    unfolding fat_bytes_def by (subst drop_zero_tail) (use assms in simp_all)
  then show ?thesis
    by (simp add: fat_entry_def le_decode_zeros)
qed

lemma boot_field_32:
  "region (boot_bytes size_mb) 32 4 = le_bytes 4 (total_sectors size_mb)"
  by (simp add: region_def boot_bytes_def)

lemma boot_field_36:
  "region (boot_bytes size_mb) 36 4 = le_bytes 4 (fat_size_sectors size_mb)"
  by (simp add: region_def boot_bytes_def)

lemma boot_signature:
  "boot_bytes size_mb ! 510 = 0x55" "boot_bytes size_mb ! 511 = 0xAA"
  "le_decode (region (boot_bytes size_mb) 510 2) = 0xAA55"
  by (simp_all add: region_def boot_bytes_def nth_append)

lemma image_boot_region:
  "nat off + nat n \<le> 512 \<Longrightarrow>
   region (image_bytes size_mb) off n = region (boot_bytes size_mb) off n"
  unfolding image_bytes_def by (rule region_prefix) (simp add: length_boot_bytes)

lemma image_boot_nth: "i < 512 \<Longrightarrow> image_bytes size_mb ! i = boot_bytes size_mb ! i"
  by (simp add: image_bytes_def nth_append length_boot_bytes)

subsection \<open>Length of the image\<close>

text \<open>
  Claim C1, amended. For every \<open>size_mb\<close> from 1 to 2097151, on a path that can be opened,
  \<open>create_fat32_image\<close> returns normally and the file it leaves has exactly
  \<open>size_mb * 1024 * 1024\<close> bytes, which is \<open>total_sectors * 512\<close>; the last step seeks to
  offset \<open>size_mb * 1024 * 1024 - 1\<close> and writes one zero byte there.
\<close>

theorem image_length:
  assumes "0 < size_mb" and "size_mb < 2097152" and "openable w filename"
  shows "\<exists>out. output_of w filename size_mb = Some out
           \<and> int (length out) = size_mb * 1024 * 1024
           \<and> int (length out) = total_sectors size_mb * 512
           \<and> out ! nat (size_mb * 1024 * 1024 - 1) = 0
           \<and> (\<forall>f. extend_to_end size_mb f
                  = (fwrite (f\<lparr>pos := nat (size_mb * 1024 * 1024 - 1)\<rparr>) [0], None))"
proof -
  have "int (length (image_bytes size_mb)) = size_mb * 1024 * 1024"
    using assms(1) by (simp add: length_image_bytes)
  moreover have "size_mb * 1024 * 1024 = total_sectors size_mb * 512"
    by (simp add: total_sectors_eq)
  ultimately show ?thesis
    using output_of_ok[OF assms] last_image_byte[OF assms(1)] extend_to_end_eq[OF assms(1)]
    by simp
qed

text \<open>The amended claim C1 at one megabyte: the file has 1048576 bytes.\<close>

theorem image_length_witness:
  "(0::int) < 1 \<and> (1::int) < 2097152 \<and> openable fresh_world ''disk.img''
   \<and> (\<exists>out. output_of fresh_world ''disk.img'' 1 = Some out \<and> int (length out) = 1048576)"
proof -
  have h: "openable fresh_world ''disk.img''"
    by (simp add: fresh_world_def)
  with image_length[of 1 fresh_world "''disk.img''"] show ?thesis
    by auto
qed

text \<open>
  Claim C1 as stated fails at \<open>size_mb = 2097152\<close>: \<open>total_sectors\<close> is \<open>2 ^ 32\<close>, the pack
  of the 32-bit field at offset 32 raises \<^verbatim>\<open>struct.error\<close> before the file is opened, and
  no file of \<open>2097152 * 1024 * 1024\<close> bytes is left.
\<close>

theorem image_length_counterexample:
  "(0::int) < 2097152
   \<and> snd (create_fat32_image fresh_world ''disk.img'' 2097152) = Some StructError
   \<and> output_of fresh_world ''disk.img'' 2097152 = None
   \<and> map_option length (files (fst (create_fat32_image fresh_world ''disk.img'' 2097152))
        ''disk.img'') \<noteq> Some (nat (2097152 * 1024 * 1024))"
  by (simp add: output_of_def create_out_of_range fresh_world_def)


subsection \<open>The boot sector in the image\<close>

text \<open>
  Claim C2, amended. For every \<open>size_mb\<close> from 1 to 2097151, on a path that can be opened,
  bytes 0 to 511 of the output are the boot sector of the table of section 6: each listed
  field little-endian at its offset with its value, every other byte zero. Bytes 510 and
  511 hold \<open>0xAA55\<close>; the 32-bit field at offset 32 decodes to \<open>total_sectors\<close> and the
  one at offset 36 to \<open>fat_size_sectors\<close>, which are 65536 and 512 for \<open>size_mb = 32\<close>.
\<close>

theorem boot_sector_layout:
  assumes "0 < size_mb" and "size_mb < 2097152" and "openable w filename"
  shows "\<exists>out. output_of w filename size_mb = Some out
           \<and> take 512 out = spec_boot_sector size_mb
           \<and> out ! 510 = 0x55 \<and> out ! 511 = 0xAA
           \<and> le_decode (region out 510 2) = 0xAA55
           \<and> le_decode (region out 32 4) = total_sectors size_mb
           \<and> le_decode (region out 36 4) = fat_size_sectors size_mb
           \<and> total_sectors 32 = 65536 \<and> total_clusters 32 = 65536
           \<and> fat_size_sectors 32 = 512"
proof -
  let ?out = "image_bytes size_mb"
  note r = in_range[of size_mb]
  have "take 512 ?out = spec_boot_sector size_mb"
    by (simp add: take_boot_sector spec_boot_sector_eq)
  moreover have "?out ! 510 = 0x55" "?out ! 511 = 0xAA"
    by (simp_all add: image_boot_nth boot_signature)
  moreover have "le_decode (region ?out 510 2) = 0xAA55"
    by (simp add: image_boot_region boot_signature)
  moreover have "le_decode (region ?out 32 4) = total_sectors size_mb"
    using assms r by (simp add: image_boot_region boot_field_32 le_decode_le_bytes)
  moreover have "le_decode (region ?out 36 4) = fat_size_sectors size_mb"
    using assms r by (simp add: image_boot_region boot_field_36 le_decode_le_bytes)
  moreover have "total_sectors 32 = 65536" "total_clusters 32 = 65536"
    "fat_size_sectors 32 = 512"
    by (simp_all add: geom_defs)
  ultimately show ?thesis
    using output_of_ok[OF assms] by simp
qed

text \<open>
  The amended claim C2 at 32 megabytes: offset 32 decodes to 65536 and offset 36 to 512.
\<close>

theorem boot_sector_layout_witness:
  "(0::int) < 32 \<and> (32::int) < 2097152 \<and> openable fresh_world ''disk.img''
   \<and> (\<exists>out. output_of fresh_world ''disk.img'' 32 = Some out
         \<and> take 512 out = spec_boot_sector 32
         \<and> le_decode (region out 510 2) = 0xAA55
         \<and> le_decode (region out 32 4) = 65536
         \<and> le_decode (region out 36 4) = 512)"
proof -
  have h: "openable fresh_world ''disk.img''"
    by (simp add: fresh_world_def)
  with boot_sector_layout[of 32 fresh_world "''disk.img''"] show ?thesis
    by auto
qed

text \<open>
  Claim C2 as stated fails at \<open>size_mb = 2097152\<close>: building the boot sector raises
  \<^verbatim>\<open>struct.error\<close> and there is no output whose first 512 bytes could be the boot sector.
\<close>

theorem boot_sector_layout_counterexample:
  "(0::int) < 2097152
   \<and> boot_sector 2097152 = Inl StructError
   \<and> output_of fresh_world ''disk.img'' 2097152 = None
   \<and> map_option (take 512) (files (fst (create_fat32_image fresh_world ''disk.img'' 2097152))
        ''disk.img'') \<noteq> Some (spec_boot_sector 2097152)"
  by (simp add: output_of_def create_out_of_range boot_sector_out_of_range fresh_world_def)

subsection \<open>The file allocation tables in the image\<close>

text \<open>
  Claim C3, amended. For every \<open>size_mb\<close> from 1 to 2097151, on a path that can be opened,
  each of the two FAT copies of the output has \<open>total_clusters\<close> entries of four bytes, its
  entries 0, 1 and 2 are \<open>0x0FFFFFF8\<close>, \<open>0x0FFFFFFF\<close> and \<open>0x0FFFFFFF\<close>, and every entry
  with index from 3 to \<open>total_clusters - 1\<close> is zero.
\<close>

theorem fat_reserved_entries:
  assumes "0 < size_mb" and "size_mb < 2097152" and "openable w filename"
  shows "\<exists>out. output_of w filename size_mb = Some out
           \<and> (\<forall>k\<in>{0, 1}.
                 int (length (fat_copy size_mb k out)) = 4 * total_clusters size_mb
               \<and> fat_entry (fat_copy size_mb k out) 0 = 0x0FFFFFF8
               \<and> fat_entry (fat_copy size_mb k out) 1 = 0x0FFFFFFF
               \<and> fat_entry (fat_copy size_mb k out) 2 = 0x0FFFFFFF
               \<and> (\<forall>j. 3 \<le> j \<and> int j < total_clusters size_mb
                      \<longrightarrow> fat_entry (fat_copy size_mb k out) j = 0))"
proof -
  have "int (length (fat_bytes size_mb)) = 4 * total_clusters size_mb"
    using assms(1) by (simp add: length_fat_bytes total_clusters_def total_sectors_eq
        sectors_per_cluster_def)
  then show ?thesis
    using output_of_ok[OF assms] fat_copy_0[OF assms(1)] fat_copy_1[OF assms(1)]
      fat_entries_reserved[of size_mb]
    by (simp add: fat_entries_free)
qed

text \<open>
  The amended claim C3 at one megabyte, for entries of both copies and the last entry.
\<close>

theorem fat_reserved_entries_witness:
  "(0::int) < 1 \<and> (1::int) < 2097152 \<and> openable fresh_world ''disk.img''
   \<and> (3::nat) \<le> 2047 \<and> int 2047 < total_clusters 1
   \<and> (\<exists>out. output_of fresh_world ''disk.img'' 1 = Some out
         \<and> fat_entry (fat_copy 1 0 out) 0 = 0x0FFFFFF8
         \<and> fat_entry (fat_copy 1 1 out) 2 = 0x0FFFFFFF
         \<and> fat_entry (fat_copy 1 1 out) 2047 = 0)"
proof -
  have h: "openable fresh_world ''disk.img''"
    by (simp add: fresh_world_def)
  have c: "int 2047 < total_clusters 1"
    by (simp add: geom_defs)
  from fat_reserved_entries[of 1 fresh_world "''disk.img''"] h c show ?thesis
    by auto
qed

text \<open>
  Claim C3 as stated fails at \<open>size_mb = 2097152\<close>: the function raises \<^verbatim>\<open>struct.error\<close>
  and leaves no file, so there is no first FAT copy.
\<close>

theorem fat_reserved_entries_counterexample:
  "(0::int) < 2097152
   \<and> snd (create_fat32_image fresh_world ''disk.img'' 2097152) = Some StructError
   \<and> map_option (fat_copy 2097152 0)
        (files (fst (create_fat32_image fresh_world ''disk.img'' 2097152)) ''disk.img'') = None"
  by (simp add: create_out_of_range fresh_world_def)

text \<open>
  Claim C5, amended. For every \<open>size_mb\<close> from 1 to 2097151, on a path that can be opened,
  the two FAT regions of the output, each of \<open>fat_size_sectors * 512\<close> bytes and the first
  at byte offset \<open>reserved_sectors * 512\<close>, are equal byte for byte.
\<close>

theorem fat_copies_identical:
  assumes "0 < size_mb" and "size_mb < 2097152" and "openable w filename"
  shows "\<exists>out. output_of w filename size_mb = Some out
           \<and> fat_copy size_mb 0 out = fat_copy size_mb 1 out
           \<and> int (length (fat_copy size_mb 0 out)) = fat_size_sectors size_mb * 512
           \<and> int (length (fat_copy size_mb 1 out)) = fat_size_sectors size_mb * 512"
  using output_of_ok[OF assms] fat_copy_0[OF assms(1)] fat_copy_1[OF assms(1)] assms(1)
  by (simp add: length_fat_bytes fat_size_sectors_eq)

text \<open>
  The amended claim C5 at one megabyte: two equal copies of 8192 bytes.
\<close>

theorem fat_copies_identical_witness:
  "(0::int) < 1 \<and> (1::int) < 2097152 \<and> openable fresh_world ''disk.img''
   \<and> (\<exists>out. output_of fresh_world ''disk.img'' 1 = Some out
         \<and> fat_copy 1 0 out = fat_copy 1 1 out \<and> length (fat_copy 1 0 out) = 8192)"
proof -
  have h: "openable fresh_world ''disk.img''"
    by (simp add: fresh_world_def)
  have "fat_size_sectors 1 * 512 = 8192"
    by (simp add: geom_defs)
  with fat_copies_identical[of 1 fresh_world "''disk.img''"] h show ?thesis
    by auto
qed

text \<open>
  Claim C5 as stated fails at \<open>size_mb = 2097152\<close>: the function raises \<^verbatim>\<open>struct.error\<close>
  and leaves no file, so there is no second FAT copy to compare.
\<close>

theorem fat_copies_identical_counterexample:
  "(0::int) < 2097152
   \<and> snd (create_fat32_image fresh_world ''disk.img'' 2097152) = Some StructError
   \<and> map_option (fat_copy 2097152 1)
        (files (fst (create_fat32_image fresh_world ''disk.img'' 2097152)) ''disk.img'') = None"
  by (simp add: create_out_of_range fresh_world_def)

subsection \<open>The root directory cluster in the image\<close>

text \<open>
  Claim C6, amended. For every \<open>size_mb\<close> from 1 to 2097151, on a path that can be opened,
  the 512 bytes of the output that start at byte offset
  \<open>(reserved_sectors + 2 * fat_size_sectors) * 512\<close>, right after the two FAT copies, are
  all zero.
\<close>

theorem root_directory_zero:
  assumes "0 < size_mb" and "size_mb < 2097152" and "openable w filename"
  shows "\<exists>out. output_of w filename size_mb = Some out
           \<and> root_dir_cluster size_mb out = replicate 512 0"
  using output_of_ok[OF assms] root_dir_cluster_image[OF assms(1)] by simp

text \<open>
  The amended claim C6 at one megabyte: the cluster at byte offset 32768 is zero.
\<close>

theorem root_directory_zero_witness:
  "(0::int) < 1 \<and> (1::int) < 2097152 \<and> openable fresh_world ''disk.img''
   \<and> (\<exists>out. output_of fresh_world ''disk.img'' 1 = Some out
         \<and> region out 32768 512 = replicate 512 0)"
proof -
  have h: "openable fresh_world ''disk.img''"
    by (simp add: fresh_world_def)
  have "root_dir_cluster 1 out = region out 32768 512" for out
    by (simp add: root_dir_cluster_def geom_defs)
  with root_directory_zero[of 1 fresh_world "''disk.img''"] h show ?thesis
    by auto
qed

text \<open>
  Claim C6 as stated fails at \<open>size_mb = 2097152\<close>: the function raises \<^verbatim>\<open>struct.error\<close>
  and leaves no file, so there is no root directory cluster.
\<close>

theorem root_directory_zero_counterexample:
  "(0::int) < 2097152
   \<and> snd (create_fat32_image fresh_world ''disk.img'' 2097152) = Some StructError
   \<and> map_option (root_dir_cluster 2097152)
        (files (fst (create_fat32_image fresh_world ''disk.img'' 2097152)) ''disk.img'') = None"
  by (simp add: create_out_of_range fresh_world_def)


subsection \<open>The written sectors fit the volume\<close>

lemma create_zero:
  assumes "openable w filename"
  shows "snd (create_fat32_image w filename 0) = Some StructError"
  using assms
  by (simp add: create_fat32_image_def boot_sector_ok open_wb_def write_regions_def
      fat_table_zero Let_def)

lemma boot_sector_Inr:
  assumes "boot_sector size_mb = Inr bpb"
  shows "0 \<le> size_mb \<and> size_mb < 2097152 \<and> bpb = boot_bytes size_mb"
proof (cases "size_mb < 0 \<or> 2097152 \<le> size_mb")
  case True
  from boot_sector_out_of_range[OF this] assms show ?thesis by simp
next
  case False
  then have "0 \<le> size_mb" "size_mb < 2097152" by auto
  with boot_sector_ok[of size_mb] assms show ?thesis by simp
qed

text \<open>
  Claim C10. For every positive \<open>size_mb\<close> the sectors written before the seek fit the
  volume: \<open>reserved_sectors + num_fats * fat_size_sectors + sectors_per_cluster\<close> is at most
  \<open>total_sectors\<close>, so the data area left after the root cluster is not negative, and
  whenever the boot sector was built the five writes raise nothing and end at that many
  sectors, a position at or before the seek target \<open>(total_sectors * 512) - 1\<close>.
\<close>

theorem layout_fits_volume:
  assumes "0 < size_mb"
  shows "reserved_sectors + num_fats * fat_size_sectors size_mb + sectors_per_cluster
           \<le> total_sectors size_mb
         \<and> 0 \<le> remaining_sectors size_mb - sectors_per_cluster
         \<and> (\<forall>bpb. boot_sector size_mb = Inr bpb \<longrightarrow>
               snd (write_regions bpb size_mb \<lparr>content = [], pos = 0\<rparr>) = None
             \<and> int (pos (fst (write_regions bpb size_mb \<lparr>content = [], pos = 0\<rparr>)))
                 = (reserved_sectors + num_fats * fat_size_sectors size_mb
                    + sectors_per_cluster) * sector_size
             \<and> int (pos (fst (write_regions bpb size_mb \<lparr>content = [], pos = 0\<rparr>)))
                 \<le> (total_sectors size_mb * sector_size) - 1)"
proof -
  have geo: "reserved_sectors + num_fats * fat_size_sectors size_mb + sectors_per_cluster
           \<le> total_sectors size_mb"
       "0 \<le> remaining_sectors size_mb - sectors_per_cluster"
    using assms
    by (simp_all add: total_sectors_eq fat_size_sectors_eq reserved_sectors_def num_fats_def
        sectors_per_cluster_def remaining_sectors_def used_sectors_def)
  have "snd (write_regions bpb size_mb \<lparr>content = [], pos = 0\<rparr>) = None
      \<and> int (pos (fst (write_regions bpb size_mb \<lparr>content = [], pos = 0\<rparr>)))
          = (reserved_sectors + num_fats * fat_size_sectors size_mb
             + sectors_per_cluster) * sector_size
      \<and> int (pos (fst (write_regions bpb size_mb \<lparr>content = [], pos = 0\<rparr>)))
          \<le> (total_sectors size_mb * sector_size) - 1"
    if "boot_sector size_mb = Inr bpb" for bpb
  proof -
    from boot_sector_Inr[OF that] have "length bpb = 512"
      by (simp add: length_boot_bytes)
    with assms have "length (regions_bytes bpb size_mb) = nat (16384 * size_mb + 16896)"
      by (simp add: length_regions_bytes)
    with assms show ?thesis
      by (simp add: write_regions_ok total_sectors_eq fat_size_sectors_eq reserved_sectors_def
          num_fats_def sectors_per_cluster_def sector_size_def)
  qed
  with geo show ?thesis by blast
qed

text \<open>
  Claim C10 at one megabyte, where the boot sector is built.
\<close>

theorem layout_fits_volume_witness:
  "(0::int) < 1 \<and> boot_sector 1 = Inr (boot_bytes 1)
   \<and> reserved_sectors + num_fats * fat_size_sectors 1 + sectors_per_cluster \<le> total_sectors 1
   \<and> int (pos (fst (write_regions (boot_bytes 1) 1 \<lparr>content = [], pos = 0\<rparr>)))
       \<le> (total_sectors 1 * sector_size) - 1"
proof -
  have b: "boot_sector 1 = Inr (boot_bytes 1)"
    by (simp add: boot_sector_ok)
  with layout_fits_volume[of 1] show ?thesis
    by simp
qed

subsection \<open>Determinism\<close>

text \<open>
  Claim C9. Two calls with the same \<open>size_mb\<close>, in any two file systems and on any two
  paths that can be opened, end the same way (both return or both raise the same
  exception), and when they return the two files hold the same bytes: the output depends
  on \<open>size_mb\<close> alone, not on what the file system held before nor on the path.
\<close>

theorem create_deterministic:
  assumes "openable w1 f1" and "openable w2 f2"
  shows "snd (create_fat32_image w1 f1 size_mb) = snd (create_fat32_image w2 f2 size_mb)
         \<and> (snd (create_fat32_image w1 f1 size_mb) = None \<longrightarrow>
              files (fst (create_fat32_image w1 f1 size_mb)) f1 \<noteq> None
            \<and> files (fst (create_fat32_image w1 f1 size_mb)) f1
                = files (fst (create_fat32_image w2 f2 size_mb)) f2)"
proof -
  consider "size_mb < 0 \<or> 2097152 \<le> size_mb" | "size_mb = 0"
    | "0 < size_mb" "size_mb < 2097152"
    by linarith
  then show ?thesis
  proof cases
    case 1
    then show ?thesis by (simp add: create_out_of_range)
  next
    case 2
    with assms show ?thesis by (simp add: create_zero)
  next
    case 3
    with assms show ?thesis by (simp add: create_ok)
  qed
qed

text \<open>
  Claim C9 at one megabyte, for an empty file system and one where the file exists already.
\<close>

theorem create_deterministic_witness:
  "openable fresh_world ''a.img'' \<and> openable used_world ''disk.img''
   \<and> snd (create_fat32_image fresh_world ''a.img'' 1) = None
   \<and> files (fst (create_fat32_image fresh_world ''a.img'' 1)) ''a.img''
       = files (fst (create_fat32_image used_world ''disk.img'' 1)) ''disk.img''"
proof -
  have h: "openable fresh_world ''a.img''" "openable used_world ''disk.img''"
    by (simp_all add: fresh_world_def used_world_def)
  then have "snd (create_fat32_image fresh_world ''a.img'' 1) = None"
    by (simp add: create_ok)
  with create_deterministic[of fresh_world "''a.img''" used_world "''disk.img''" 1] h
  show ?thesis by simp
qed

subsection \<open>The command line\<close>

lemma main_run:
  assumes "2 \<le> length argv" and "openable w (argv ! 1)"
  shows "main w argv = (w\<lparr>files := (files w)(argv ! 1 \<mapsto> image_bytes 32)\<rparr>, [], 0)"
  using assms by (simp add: main_def default_size_mb_def create_ok)

text \<open>
  Claim C8. Without an output path the program prints the usage line, exits with status
  1 and leaves the file system as it was; with an output path that can be opened it
  writes the image there and exits with status 0.
\<close>

theorem main_usage_and_status:
  "(length argv < 2 \<longrightarrow> main w argv = (w, [''Usage: mkfat32.py <output_file>''], 1))
   \<and> (2 \<le> length argv \<and> openable w (argv ! 1) \<longrightarrow>
        snd (snd (main w argv)) = 0
      \<and> fst (main w argv) = fst (create_fat32_image w (argv ! 1) default_size_mb)
      \<and> files (fst (main w argv)) (argv ! 1) \<noteq> None)"
proof -
  have "main w argv = (w, [''Usage: mkfat32.py <output_file>''], 1)" if "length argv < 2"
    using that by (simp add: main_def)
  moreover have "snd (snd (main w argv)) = 0
      \<and> fst (main w argv) = fst (create_fat32_image w (argv ! 1) default_size_mb)
      \<and> files (fst (main w argv)) (argv ! 1) \<noteq> None"
    if "2 \<le> length argv" "openable w (argv ! 1)"
    using that by (simp add: main_run default_size_mb_def create_ok)
  ultimately show ?thesis by blast
qed

text \<open>
  Claim C8 on a command line without and one with an output path.
\<close>

theorem main_usage_and_status_witness:
  "length [''mkfat32.py''] < 2
   \<and> main used_world [''mkfat32.py''] = (used_world, [''Usage: mkfat32.py <output_file>''], 1)
   \<and> 2 \<le> length [''mkfat32.py'', ''out.img'']
   \<and> openable used_world ([''mkfat32.py'', ''out.img''] ! 1)
   \<and> snd (snd (main used_world [''mkfat32.py'', ''out.img''])) = 0"
proof -
  have h: "openable used_world ([''mkfat32.py'', ''out.img''] ! 1)"
    by (simp add: used_world_def fresh_world_def)
  from main_usage_and_status[of "[''mkfat32.py'']" used_world]
  have "main used_world [''mkfat32.py''] = (used_world, [''Usage: mkfat32.py <output_file>''], 1)"
    by simp
  moreover from main_usage_and_status[of "[''mkfat32.py'', ''out.img'']" used_world] h
  have "snd (snd (main used_world [''mkfat32.py'', ''out.img''])) = 0"
    by simp
  ultimately show ?thesis using h by simp
qed

text \<open>
  Claim C7, amended. The command line takes the output path as its first argument and
  nothing else: what follows the path is ignored, and the image always has the default
  size of 32 megabytes. The size is a parameter of \<open>create_fat32_image\<close> only.
\<close>

theorem main_size_is_default:
  assumes "2 \<le> length argv" and "openable w (argv ! 1)"
  shows "main w argv = main w (take 2 argv)
         \<and> main w argv = (fst (create_fat32_image w (argv ! 1) 32), [], 0)
         \<and> (\<exists>out. files (fst (main w argv)) (argv ! 1) = Some out
                \<and> int (length out) = 32 * 1024 * 1024)"
proof -
  have "main w (take 2 argv) = main w argv"
    using assms by (simp add: main_run)
  moreover have "int (length (image_bytes 32)) = 32 * 1024 * 1024"
    by (simp add: length_image_bytes)
  ultimately show ?thesis
    using assms by (simp add: main_run create_ok)
qed

text \<open>
  The amended claim C7 on a command line with a third argument.
\<close>

theorem main_size_is_default_witness:
  "2 \<le> length [''mkfat32.py'', ''disk.img'', ''64'']
   \<and> openable fresh_world ([''mkfat32.py'', ''disk.img'', ''64''] ! 1)
   \<and> main fresh_world [''mkfat32.py'', ''disk.img'', ''64'']
       = main fresh_world [''mkfat32.py'', ''disk.img'']"
proof -
  have h: "openable fresh_world ([''mkfat32.py'', ''disk.img'', ''64''] ! 1)"
    by (simp add: fresh_world_def)
  with main_size_is_default[of "[''mkfat32.py'', ''disk.img'', ''64'']" fresh_world]
  show ?thesis by simp
qed

text \<open>
  Claim C7 as stated fails on the command line \<^verbatim>\<open>mkfat32.py disk.img 64\<close>: the image has
  32 megabytes, not 64.
\<close>

theorem main_size_argument_counterexample:
  "map_option length (files (fst (main fresh_world [''mkfat32.py'', ''disk.img'', ''64'']))
      ''disk.img'') = Some (32 * 1024 * 1024)
   \<and> map_option length (files (fst (main fresh_world [''mkfat32.py'', ''disk.img'', ''64'']))
      ''disk.img'') \<noteq> Some (64 * 1024 * 1024)"
proof -
  have "openable fresh_world ([''mkfat32.py'', ''disk.img'', ''64''] ! 1)"
    by (simp add: fresh_world_def)
  then have "main fresh_world [''mkfat32.py'', ''disk.img'', ''64'']
      = (fresh_world\<lparr>files := (files fresh_world)(''disk.img'' \<mapsto> image_bytes 32)\<rparr>, [], 0)"
    using main_run[of "[''mkfat32.py'', ''disk.img'', ''64'']" fresh_world] by simp
  then show ?thesis
    by (simp add: length_image_bytes)
qed

end
